theory Spec2Isabelle
  imports Complex_Main "HOL-Library.Sublist" "HOL-Library.Product_Lexorder"
begin

section \<open>Python values used by the task manager\<close>

text \<open>
  Strings are lists of characters with code points below 256. On these code points
  \<open>str.lower()\<close> adds 32 to \<open>A\<close>..\<open>Z\<close> and to the Latin-1 capitals 192..222 other
  than the multiplication sign 215, and leaves every other character alone.
\<close>

definition lower_char :: "char \<Rightarrow> char" where
  "lower_char c =
     (let n = (of_char c :: nat)
      in if (65 \<le> n \<and> n \<le> 90) \<or> (192 \<le> n \<and> n \<le> 222 \<and> n \<noteq> 215)
         then char_of (n + 32) else c)"

definition lower :: "string \<Rightarrow> string" where
  "lower s = map lower_char s"

text \<open>\<open>str_contains sub s\<close> is the substring test \<open>sub in s\<close>.\<close>

fun str_contains :: "string \<Rightarrow> string \<Rightarrow> bool" where
  "str_contains sub [] = (sub = [])"
| "str_contains sub (c # cs) = (prefix sub (c # cs) \<or> str_contains sub cs)"

text \<open>\<open>any(keyword in s for keyword in keywords)\<close>.\<close>

definition any_keyword_in :: "string list \<Rightarrow> string \<Rightarrow> bool" where
  "any_keyword_in keywords s = list_ex (\<lambda>keyword. str_contains keyword s) keywords"

text \<open>\<open>str(n)\<close> on integers, and \<open>'%0kd'\<close> padding.\<close>

function str_digits :: "int \<Rightarrow> string" where
  "str_digits n =
     (if n < 10 then [''0123456789'' ! nat n]
      else str_digits (n div 10) @ [''0123456789'' ! nat (n mod 10)])"
  by pat_completeness auto
termination
  by (relation "measure nat") auto

declare str_digits.simps [simp del]


definition zfill :: "nat \<Rightarrow> string \<Rightarrow> string" where
  "zfill k s = replicate (k - length s) (CHR ''0'') @ s"

text \<open>
  Exceptions derived from \<open>Exception\<close>, with the text \<open>str(e)\<close> gives. The text of a
  \<open>KeyError\<close> is the key between quotes (the \<open>repr\<close> of a key without quotes of its
  own).
\<close>

datatype exn =
    KeyError string
  | TypeError string
  | ValueError string
  | OtherError string

fun exn_str :: "exn \<Rightarrow> string" where
  "exn_str (KeyError k) = [CHR 0x27] @ k @ [CHR 0x27]"
| "exn_str (TypeError m) = m"
| "exn_str (ValueError m) = m"
| "exn_str (OtherError m) = m"

text \<open>
  What an awaited call can raise: an exception that \<open>except Exception\<close> catches, or
  one derived from \<open>BaseException\<close> only (\<open>asyncio.CancelledError\<close>,
  \<open>KeyboardInterrupt\<close>, \<open>SystemExit\<close>), given by its class name, which
  \<open>except Exception\<close> lets through.
\<close>

datatype base_exn = BaseExn string

datatype raised =
    Exc exn
  | Base base_exn

text \<open>The values stored under the keys of an event's \<open>details\<close> or a message's payload.\<close>

datatype pyval =
    PStr string
  | PInt int
  | PFloat rat
  | PBool bool
  | PNone
  | PList "pyval list"
  | PDict "(string \<times> pyval) list"

type_synonym pydict = "(string \<times> pyval) list"

section \<open>datetime\<close>

text \<open>
  A \<open>datetime\<close> object: its calendar fields and, for an offset-aware value, the UTC
  offset in microseconds (\<open>tzinfo = None\<close> is an offset-naive value).
\<close>

record datetime =
  year :: int
  month :: int
  day :: int
  hour :: int
  minute :: int
  second :: int
  microsecond :: int
  tzinfo :: "int option"

definition datetime_max :: datetime where
  "datetime_max = \<lparr>year = 9999, month = 12, day = 31, hour = 23, minute = 59,
     second = 59, microsecond = 999999, tzinfo = None\<rparr>"

definition is_leap :: "int \<Rightarrow> bool" where
  "is_leap y = (y mod 4 = 0 \<and> (y mod 100 \<noteq> 0 \<or> y mod 400 = 0))"

definition days_in_month :: "int \<Rightarrow> int \<Rightarrow> int" where
  "days_in_month y m =
     (if m = 2 then (if is_leap y then 29 else 28)
      else if m \<in> {4, 6, 9, 11} then 30 else 31)"


definition days_before_year :: "int \<Rightarrow> int" where
  "days_before_year y =
     (let p = y - 1 in p * 365 + p div 4 - p div 100 + p div 400)"

definition days_before_month :: "int \<Rightarrow> int \<Rightarrow> int" where
  "days_before_month y m = sum_list (map (days_in_month y) [1..m - 1])"

definition ymd2ord :: "int \<Rightarrow> int \<Rightarrow> int \<Rightarrow> int" where
  "ymd2ord y m d = days_before_year y + days_before_month y m + d"

text \<open>Microseconds since the start of day 0 of the proleptic calendar, ignoring the offset.\<close>

definition wall_us :: "datetime \<Rightarrow> int" where
  "wall_us d =
     (((ymd2ord (year d) (month d) (day d) * 24 + hour d) * 60 + minute d) * 60
        + second d) * 1000000 + microsecond d"

definition utc_us :: "datetime \<Rightarrow> int" where
  "utc_us d = wall_us d - (case tzinfo d of None \<Rightarrow> 0 | Some off \<Rightarrow> off)"

definition dt_fields :: "datetime \<Rightarrow> int \<times> int \<times> int \<times> int \<times> int \<times> int \<times> int" where
  "dt_fields d = (year d, month d, day d, hour d, minute d, second d, microsecond d)"

text \<open>
  \<open>a == b\<close> and \<open>a < b\<close> on datetimes. Two naive values compare by their fields, two
  aware values by their instants; a naive and an aware value are unequal, and ordering
  them raises \<open>TypeError\<close>.
\<close>

definition naive_aware_msg :: string where
  "naive_aware_msg = ''can't compare offset-naive and offset-aware datetimes''"

definition datetime_eq :: "datetime \<Rightarrow> datetime \<Rightarrow> bool" where
  "datetime_eq a b =
     (case (tzinfo a, tzinfo b) of
        (None, None) \<Rightarrow> dt_fields a = dt_fields b
      | (Some _, Some _) \<Rightarrow> utc_us a = utc_us b
      | _ \<Rightarrow> False)"

definition datetime_lt :: "datetime \<Rightarrow> datetime \<Rightarrow> exn + bool" where
  "datetime_lt a b =
     (case (tzinfo a, tzinfo b) of
        (None, None) \<Rightarrow> Inr (dt_fields a < dt_fields b)
      | (Some _, Some _) \<Rightarrow> Inr (utc_us a < utc_us b)
      | _ \<Rightarrow> Inl (TypeError naive_aware_msg))"

text \<open>
  \<open>(b - a).total_seconds() * 1000\<close> for two naive values, as an exact rational; the
  program holds the nearest float.
\<close>

definition elapsed_ms :: "datetime \<Rightarrow> datetime \<Rightarrow> rat" where
  "elapsed_ms a b = of_int (wall_us b - wall_us a) / 1000"

definition format_offset :: "int option \<Rightarrow> string" where
  "format_offset off =
     (case off of
        None \<Rightarrow> ''''
      | Some us \<Rightarrow>
          (let a = \<bar>us\<bar>;
               hh = a div 3600000000;
               mm = (a mod 3600000000) div 60000000;
               ss = (a mod 60000000) div 1000000;
               ff = a mod 1000000
           in (if us < 0 then ''-'' else ''+'')
              @ zfill 2 (str_digits hh) @ '':'' @ zfill 2 (str_digits mm)
              @ (if ss \<noteq> 0 \<or> ff \<noteq> 0 then '':'' @ zfill 2 (str_digits ss) else '''')
              @ (if ff \<noteq> 0 then ''.'' @ zfill 6 (str_digits ff) else '''')))"

definition isoformat :: "datetime \<Rightarrow> string" where
  "isoformat d =
     zfill 4 (str_digits (year d)) @ ''-'' @ zfill 2 (str_digits (month d)) @ ''-''
     @ zfill 2 (str_digits (day d)) @ ''T'' @ zfill 2 (str_digits (hour d)) @ '':''
     @ zfill 2 (str_digits (minute d)) @ '':'' @ zfill 2 (str_digits (second d))
     @ (if microsecond d \<noteq> 0 then ''.'' @ zfill 6 (str_digits (microsecond d)) else '''')
     @ format_offset (tzinfo d)"

section \<open>Observability events, messages, tasks\<close>

datatype EventType =
    AGENT_CALL
  | TOOL_EXECUTION
  | A2A_COMMUNICATION
  | ERROR
  | SESSION_CREATED

record ObservabilityEvent =
  event_id :: string
  event_type :: EventType
  timestamp :: string
  agent_name :: string
  details :: pydict
  duration_ms :: rat

record A2AMessage =
  message_id :: string
  from_agent :: string
  to_agent :: string
  message_type :: string
  content :: pydict
  msg_context :: pydict
  msg_timestamp :: string
  delivered :: bool

record subtask =
  sub_title :: string
  sub_status :: string
  sub_created_at :: string
  sub_completed_at :: "string option"

record task =
  task_id :: int
  title :: string
  due_date :: "string option"
  priority :: string
  task_context :: string
  status :: string
  created_at :: string
  updated_at :: "string option"
  reminder_time :: "string option"
  subtasks :: "subtask list"

record goal =
  goal_text :: string
  horizon_months :: int
  category :: string
  goal_created_at :: string

text \<open>
  The JSON object kept in \<open>tasks_db.json\<close>: either key may be absent. The file itself
  may be missing, or fail to load (with the text of the failure).
\<close>

record db =
  tasks :: "task list option"
  goals :: "goal list option"

datatype db_file =
    Missing
  | Unreadable string
  | Stored db

text \<open>
  How writing the file fails: \<open>open(DB_PATH, "w")\<close> raises and the file is as it was,
  or the file has been opened, and with that truncated, when the write raises; what is
  left is no JSON document, and a later load fails with the second text.
\<close>

datatype write_failure =
    OpenFailed string
  | DumpFailed string string

section \<open>The process state and its environment\<close>

text \<open>
  The module-level state: the tracker's event list, the queue of the bus, the JSON
  file, whether and how writing that file currently fails, and how many identifiers and
  clock readings have been drawn so far.
\<close>

record world =
  events :: "ObservabilityEvent list"
  message_queue :: "A2AMessage list"
  db_file :: db_file
  write_error :: "write_failure option"
  uuid_draws :: nat
  clock_reads :: nat

record LlmAgent =
  name :: string
  description :: string
  tools :: "string list"

record runner_event =
  has_is_final_response :: bool
  is_final_response :: bool
  event_str :: string

text \<open>
  What the code reads from outside: the \<open>n\<close>-th \<open>uuid4()\<close>, the \<open>n\<close>-th reading of the
  clock, \<open>datetime.fromisoformat\<close> (\<open>None\<close> where it raises \<open>ValueError\<close>), and the
  agent runner (session creation and \<open>run_async\<close>), which may change the state through
  tool calls and either yields its events or raises.
\<close>

record env =
  uuid4 :: "nat \<Rightarrow> string"
  clock :: "nat \<Rightarrow> datetime"
  fromisoformat :: "string \<Rightarrow> datetime option"
  run_async ::
    "LlmAgent \<Rightarrow> string \<Rightarrow> string \<Rightarrow> world \<Rightarrow> (raised + runner_event list) \<times> world"

text \<open>\<open>datetime.utcnow()\<close>: the next clock reading, always offset-naive.\<close>

definition utcnow :: "env \<Rightarrow> world \<Rightarrow> datetime \<times> world" where
  "utcnow E w =
     ((clock E (clock_reads w))\<lparr>tzinfo := None\<rparr>, w\<lparr>clock_reads := clock_reads w + 1\<rparr>)"

definition now_iso :: "env \<Rightarrow> world \<Rightarrow> string \<times> world" where
  "now_iso E w = (let (d, w1) = utcnow E w in (isoformat d, w1))"

section \<open>ObservabilityTracker\<close>

text \<open>\<open>xs[-1000:]\<close>.\<close>

definition last_1000 :: "'a list \<Rightarrow> 'a list" where
  "last_1000 xs = drop (length xs - 1000) xs"

text \<open>
  The event \<open>log_event\<close> builds when \<open>u\<close> identifiers and \<open>c\<close> clock readings have
  been drawn before it.
\<close>

definition new_event ::
  "env \<Rightarrow> nat \<Rightarrow> nat \<Rightarrow> EventType \<Rightarrow> string \<Rightarrow> pydict \<Rightarrow> rat \<Rightarrow> ObservabilityEvent" where
  "new_event E u c ty agent ds dur =
     \<lparr>event_id = uuid4 E u, event_type = ty,
      timestamp = isoformat ((clock E c)\<lparr>tzinfo := None\<rparr>),
      agent_name = agent, details = ds, duration_ms = dur\<rparr>"

definition log_event ::
  "env \<Rightarrow> EventType \<Rightarrow> string \<Rightarrow> pydict \<Rightarrow> rat \<Rightarrow> world \<Rightarrow> world" where
  "log_event E ty agent ds dur w =
     (let event = new_event E (uuid_draws w) (clock_reads w) ty agent ds dur;
          evs = events w @ [event]
      in w\<lparr>events := (if length evs > 1000 then last_1000 evs else evs),
            uuid_draws := uuid_draws w + 1,
            clock_reads := clock_reads w + 1\<rparr>)"

text \<open>A call of \<open>log_event\<close> is given by its four arguments.\<close>

type_synonym log_call = "EventType \<times> string \<times> pydict \<times> rat"

definition log_call :: "env \<Rightarrow> world \<Rightarrow> log_call \<Rightarrow> world" where
  "log_call E w c = (case c of (ty, agent, ds, dur) \<Rightarrow> log_event E ty agent ds dur w)"

definition log_calls :: "env \<Rightarrow> world \<Rightarrow> log_call list \<Rightarrow> world" where
  "log_calls E w cs = foldl (log_call E) w cs"

text \<open>The events the calls \<open>cs\<close> create, in call order, when started in state \<open>w\<close>.\<close>

definition created_events :: "env \<Rightarrow> world \<Rightarrow> log_call list \<Rightarrow> ObservabilityEvent list" where
  "created_events E w cs =
     map (\<lambda>(k, (ty, agent, ds, dur)).
            new_event E (uuid_draws w + k) (clock_reads w + k) ty agent ds dur)
         (zip [0..<length cs] cs)"

section \<open>A2A protocol\<close>

definition A2AMessage_init ::
  "env \<Rightarrow> string \<Rightarrow> string \<Rightarrow> string \<Rightarrow> pydict \<Rightarrow> pydict option \<Rightarrow> world
     \<Rightarrow> A2AMessage \<times> world" where
  "A2AMessage_init E from_a to_a mtype cont ctx w =
     (let mid = uuid4 E (uuid_draws w);
          (now, w1) = now_iso E (w\<lparr>uuid_draws := uuid_draws w + 1\<rparr>)
      in (\<lparr>message_id = mid, from_agent = from_a, to_agent = to_a, message_type = mtype,
           content = cont, msg_context = (case ctx of None \<Rightarrow> [] | Some c \<Rightarrow> c),
           msg_timestamp = now, delivered = False\<rparr>, w1))"

text \<open>
  A handler is awaited with the message and may change the state (the store, the
  tracker, the queue); it returns or raises. The handlers of this program only read
  the message.
\<close>

type_synonym handler = "A2AMessage \<Rightarrow> world \<Rightarrow> (raised + unit) \<times> world"

definition register_agent ::
  "(string \<rightharpoonup> handler) \<Rightarrow> string \<Rightarrow> handler \<Rightarrow> (string \<rightharpoonup> handler)" where
  "register_agent agent_handlers agent handler = agent_handlers(agent \<mapsto> handler)"

definition send_message :: "env \<Rightarrow> A2AMessage \<Rightarrow> world \<Rightarrow> world" where
  "send_message E message w =
     log_event E A2A_COMMUNICATION (from_agent message)
       [(''action'', PStr ''message_sent''), (''to_agent'', PStr (to_agent message)),
        (''message_type'', PStr (message_type message)),
        (''message_id'', PStr (message_id message))] 0
       (w\<lparr>message_queue := message_queue w @ [message]\<rparr>)"

text \<open>
  \<open>_process_message\<close>. The model returns the names of the agents whose handler the
  call invoked, the message and the state as the call leaves them, and the exception
  that leaves the call, if any: \<open>except Exception\<close> lets an exception of the other
  kind through, before the flag is set or anything is logged.
\<close>

definition process_message ::
  "env \<Rightarrow> (string \<rightharpoonup> handler) \<Rightarrow> A2AMessage \<Rightarrow> world
     \<Rightarrow> string list \<times> A2AMessage \<times> world \<times> base_exn option" where
  "process_message E agent_handlers message w =
     (case agent_handlers (to_agent message) of
        Some handler \<Rightarrow>
          (case handler message w of
             (Inr _, w1) \<Rightarrow>
               ([to_agent message], message\<lparr>delivered := True\<rparr>,
                log_event E A2A_COMMUNICATION (to_agent message)
                  [(''action'', PStr ''message_processed''),
                   (''from_agent'', PStr (from_agent message)),
                   (''message_type'', PStr (message_type message)),
                   (''message_id'', PStr (message_id message))] 0 w1,
                None)
           | (Inl (Exc e), w1) \<Rightarrow>
               ([to_agent message], message,
                log_event E ERROR (to_agent message)
                  [(''action'', PStr ''message_processing_error''),
                   (''error'', PStr (exn_str e)),
                   (''message_id'', PStr (message_id message))] 0 w1,
                None)
           | (Inl (Base b), w1) \<Rightarrow> ([to_agent message], message, w1, Some b))
      | None \<Rightarrow>
          ([], message,
           log_event E ERROR ''A2AProtocol''
             [(''action'', PStr ''agent_not_found''),
              (''to_agent'', PStr (to_agent message)),
              (''message_id'', PStr (message_id message))] 0 w,
           None))"

section \<open>Database helpers\<close>

definition empty_db :: db where
  "empty_db = \<lparr>tasks = Some [], goals = Some []\<rparr>"

definition load_db :: "env \<Rightarrow> world \<Rightarrow> db \<times> world" where
  "load_db E w =
     (case db_file w of
        Missing \<Rightarrow> (empty_db, w)
      | Stored d \<Rightarrow> (d, w)
      | Unreadable msg \<Rightarrow>
          (empty_db,
           log_event E ERROR ''Database''
             [(''action'', PStr ''load_failed''), (''error'', PStr msg)] 0 w))"


text \<open>\<open>db.get("tasks", [])\<close>.\<close>

definition get_tasks :: "db \<Rightarrow> task list" where
  "get_tasks d = (case tasks d of None \<Rightarrow> [] | Some ts \<Rightarrow> ts)"

definition next_task_id :: "task list \<Rightarrow> int" where
  "next_task_id ts =
     (case map task_id ts of [] \<Rightarrow> 1 | i # rest \<Rightarrow> fold max rest i + 1)"

section \<open>Tools\<close>

text \<open>The values of a tool's result dictionary.\<close>

datatype rval =
    RStr string
  | RInt int
  | RTask task
  | RTasks "task list"

type_synonym result = "(string \<times> rval) list"







subsection \<open>list_tasks\<close>

definition priority_rank :: "string \<Rightarrow> nat" where
  "priority_rank p =
     (if p = ''high'' then 0 else if p = ''medium'' then 1 else if p = ''low'' then 2 else 3)"

definition parse_due :: "env \<Rightarrow> string option \<Rightarrow> datetime" where
  "parse_due E d =
     (case d of
        None \<Rightarrow> datetime_max
      | Some s \<Rightarrow>
          if s = [] then datetime_max
          else (case fromisoformat E s of
                  Some dt \<Rightarrow> dt
                | None \<Rightarrow>
                    (case fromisoformat E (s @ ''T23:59:59'') of
                       Some dt \<Rightarrow> dt
                     | None \<Rightarrow> datetime_max)))"

type_synonym sort_key = "datetime \<times> nat \<times> int"

definition task_key :: "env \<Rightarrow> task \<Rightarrow> sort_key" where
  "task_key E t = (parse_due E (due_date t), priority_rank (priority t), task_id t)"

text \<open>
  \<open>k1 < k2\<close> on key tuples: the first position where the tuples are not \<open>==\<close> is
  compared with \<open><\<close>.
\<close>

definition key_lt :: "sort_key \<Rightarrow> sort_key \<Rightarrow> exn + bool" where
  "key_lt k1 k2 =
     (case (k1, k2) of
        ((d1, r1, i1), (d2, r2, i2)) \<Rightarrow>
          if \<not> datetime_eq d1 d2 then datetime_lt d1 d2
          else if r1 \<noteq> r2 then Inr (r1 < r2)
          else Inr (i1 < i2))"

text \<open>
  \<open>sorted(tasks, key=...)\<close>: a stable sort that asks only \<open><\<close> of the keys and raises
  what a comparison raises. Sorting is written as insertion from the right; an element
  goes in front of the first element that is not smaller than it.
\<close>

fun insert_task :: "env \<Rightarrow> task \<Rightarrow> task list \<Rightarrow> exn + task list" where
  "insert_task E x [] = Inr [x]"
| "insert_task E x (y # ys) =
     (case key_lt (task_key E y) (task_key E x) of
        Inl e \<Rightarrow> Inl e
      | Inr True \<Rightarrow> (case insert_task E x ys of Inl e \<Rightarrow> Inl e | Inr zs \<Rightarrow> Inr (y # zs))
      | Inr False \<Rightarrow> Inr (x # y # ys))"

fun sorted_tasks :: "env \<Rightarrow> task list \<Rightarrow> exn + task list" where
  "sorted_tasks E [] = Inr []"
| "sorted_tasks E (x # xs) =
     (case sorted_tasks E xs of Inl e \<Rightarrow> Inl e | Inr ys \<Rightarrow> insert_task E x ys)"

definition list_tasks :: "env \<Rightarrow> string \<Rightarrow> world \<Rightarrow> result \<times> world" where
  "list_tasks E status_filter w =
     (let (start_time, w1) = utcnow E w;
          (d, w2) = load_db E w1;
          ts = (if status_filter \<noteq> ''all''
                then filter (\<lambda>t. status t = status_filter) (get_tasks d)
                else get_tasks d)
      in case sorted_tasks E ts of
           Inr tasks_sorted \<Rightarrow>
             (let (end_time, w3) = utcnow E w2;
                  w4 = log_event E TOOL_EXECUTION ''TaskManager''
                         [(''action'', PStr ''list_tasks''),
                          (''status_filter'', PStr status_filter),
                          (''count'', PInt (int (length tasks_sorted)))]
                         (elapsed_ms start_time end_time) w3
              in ([(''status'', RStr ''success''), (''tasks'', RTasks tasks_sorted)], w4))
         | Inl e \<Rightarrow>
             ([(''status'', RStr ''error''), (''message'', RStr (exn_str e))],
              log_event E ERROR ''TaskManager''
                [(''action'', PStr ''list_tasks_failed''), (''error'', PStr (exn_str e))] 0 w2))"

section \<open>Agents and the sequential orchestrator\<close>

definition task_manager_agent :: LlmAgent where
  "task_manager_agent =
     \<lparr>name = ''task_manager_agent'',
      description = ''Main agent for managing tasks, deadlines, and priorities'',
      tools = [''add_task'', ''list_tasks'', ''update_task'', ''update_task_status'',
               ''delete_task'', ''add_subtasks'', ''mark_subtask_done'',
               ''list_high_priority_top_n'', ''delete_previous_month_tasks'']\<rparr>"

definition goal_planning_agent :: LlmAgent where
  "goal_planning_agent =
     \<lparr>name = ''goal_planning_agent'',
      description = ''Specialized in long-term goal planning and strategy'',
      tools = [''save_long_term_goal'', ''list_long_term_goals'', ''get_current_time'']\<rparr>"

definition analysis_agent :: LlmAgent where
  "analysis_agent =
     \<lparr>name = ''analysis_agent'',
      description = ''Specialized in data analysis, reporting, and insights'',
      tools = [''list_tasks'', ''list_long_term_goals'', ''get_current_time'']\<rparr>"

record SequentialAgentOrchestrator =
  agents :: "string \<rightharpoonup> LlmAgent"

definition SequentialAgentOrchestrator_init :: SequentialAgentOrchestrator where
  "SequentialAgentOrchestrator_init =
     \<lparr>agents = [''task_manager_agent'' \<mapsto> task_manager_agent,
                ''goal_planning_agent'' \<mapsto> goal_planning_agent,
                ''analysis_agent'' \<mapsto> analysis_agent]\<rparr>"

text \<open>\<open>self.agents[key]\<close>.\<close>

definition agents_getitem :: "SequentialAgentOrchestrator \<Rightarrow> string \<Rightarrow> exn + LlmAgent" where
  "agents_getitem self key =
     (case agents self key of None \<Rightarrow> Inl (KeyError key) | Some a \<Rightarrow> Inr a)"

definition route_to_agent :: "SequentialAgentOrchestrator \<Rightarrow> string \<Rightarrow> exn + LlmAgent" where
  "route_to_agent self user_input =
     (let input_lower = lower user_input
      in if any_keyword_in [''goal'', ''long-term'', ''strategy'', ''plan'', ''vision'']
              input_lower
         then agents_getitem self ''goal_planning_agent''
         else if any_keyword_in [''report'', ''analysis'', ''stats'', ''trend'', ''progress'']
              input_lower
         then agents_getitem self ''analysis_agent''
         else agents_getitem self ''task_manager_agent'')"

definition determine_secondary_agent ::
  "SequentialAgentOrchestrator \<Rightarrow> string \<Rightarrow> string \<Rightarrow> exn + LlmAgent option" where
  "determine_secondary_agent self user_input primary_response =
     (let input_lower = lower user_input;
          response_lower = lower primary_response
      in if str_contains ''goal'' input_lower \<and> str_contains ''task'' response_lower
         then map_sum id Some (agents_getitem self ''goal_planning_agent'')
         else if str_contains ''report'' response_lower
                 \<or> str_contains ''analysis'' response_lower
         then map_sum id Some (agents_getitem self ''analysis_agent'')
         else Inr None)"

text \<open>The text of the last final event of the runner's stream, empty if there is none.\<close>

definition final_text :: "runner_event list \<Rightarrow> string" where
  "final_text evs =
     foldl (\<lambda>final_response ev.
              if has_is_final_response ev \<and> is_final_response ev then event_str ev
              else final_response) [] evs"

text \<open>
  \<open>_run_agent\<close>: the text it returns, or the exception that its \<open>except Exception\<close>
  lets through.
\<close>

definition run_agent ::
  "env \<Rightarrow> LlmAgent \<Rightarrow> string \<Rightarrow> string \<Rightarrow> world \<Rightarrow> (base_exn + string) \<times> world" where
  "run_agent E agent message user_id w =
     (let (start_time, w1) = utcnow E w
      in case run_async E agent user_id message w1 of
           (Inr evs, w2) \<Rightarrow>
             (let final_response = final_text evs;
                  (end_time, w3) = utcnow E w2;
                  w4 = log_event E AGENT_CALL (name agent)
                         [(''action'', PStr ''agent_execution''),
                          (''input_length'', PInt (int (length message)))]
                         (elapsed_ms start_time end_time) w3
              in (Inr (if final_response = [] then ''No response generated.''
                       else final_response), w4))
         | (Inl (Exc e), w2) \<Rightarrow>
             (Inr (''Agent '' @ name agent @ '' encountered an error: '' @ exn_str e),
              log_event E ERROR (name agent)
                [(''action'', PStr ''execution_failed''), (''error'', PStr (exn_str e))] 0 w2)
         | (Inl (Base b), w2) \<Rightarrow> (Inl b, w2))"

definition separator :: string where
  "separator = [CHR 0x0A, CHR 0x0A] @ ''---'' @ [CHR 0x0A, CHR 0x0A]"

text \<open>
  The \<open>try\<close> block of \<open>execute_workflow\<close>: its value, or what was raised in it,
  with the state at that point.
\<close>

definition workflow_try ::
  "env \<Rightarrow> SequentialAgentOrchestrator \<Rightarrow> datetime \<Rightarrow> string \<Rightarrow> string \<Rightarrow> world
     \<Rightarrow> (raised + string) \<times> world" where
  "workflow_try E self start_time user_input user_id w =
     (case route_to_agent self user_input of
        Inl e \<Rightarrow> (Inl (Exc e), w)
      | Inr primary_agent \<Rightarrow>
          (let w1 = log_event E AGENT_CALL ''Orchestrator''
                      [(''action'', PStr ''workflow_start''), (''input'', PStr user_input),
                       (''primary_agent'', PStr (name primary_agent))] 0 w
           in case run_agent E primary_agent user_input user_id w1 of
                (Inl b, w2) \<Rightarrow> (Inl (Base b), w2)
              | (Inr primary_response, w2) \<Rightarrow>
                  (case determine_secondary_agent self user_input primary_response of
                     Inl e \<Rightarrow> (Inl (Exc e), w2)
                   | Inr secondary_agent \<Rightarrow>
                       (case (case secondary_agent of
                                Some agent \<Rightarrow>
                                  (case run_agent E agent user_input user_id w2 of
                                     (Inl b, w') \<Rightarrow> (Inl b, w')
                                   | (Inr secondary_response, w') \<Rightarrow>
                                       (Inr (primary_response @ separator
                                               @ secondary_response), w'))
                              | None \<Rightarrow> (Inr primary_response, w2)) of
                          (Inl b, w3) \<Rightarrow> (Inl (Base b), w3)
                        | (Inr final_response, w3) \<Rightarrow>
                            (let (end_time, w4) = utcnow E w3;
                                 dur = elapsed_ms start_time end_time;
                                 w5 = log_event E AGENT_CALL ''Orchestrator''
                                        [(''action'', PStr ''workflow_complete''),
                                         (''duration_ms'', PFloat dur),
                                         (''agents_involved'',
                                          PList [PStr (name primary_agent),
                                                 PStr (case secondary_agent of
                                                         Some agent \<Rightarrow> name agent
                                                       | None \<Rightarrow> ''none'')])]
                                        dur w4
                             in (Inr final_response, w5))))))"

definition apology :: "exn \<Rightarrow> string" where
  "apology e = ''I encountered an error while processing your request: '' @ exn_str e"

text \<open>
  \<open>execute_workflow\<close>: the text it returns, or the exception that its
  \<open>except Exception\<close> lets through to the caller.
\<close>

definition execute_workflow ::
  "env \<Rightarrow> SequentialAgentOrchestrator \<Rightarrow> string \<Rightarrow> string \<Rightarrow> world
     \<Rightarrow> (base_exn + string) \<times> world" where
  "execute_workflow E self user_input user_id w =
     (let (start_time, w1) = utcnow E w
      in case workflow_try E self start_time user_input user_id w1 of
           (Inr final_response, w2) \<Rightarrow> (Inr final_response, w2)
         | (Inl (Exc e), w2) \<Rightarrow>
             (Inr (apology e),
              log_event E ERROR ''Orchestrator''
                [(''action'', PStr ''workflow_failed''), (''error'', PStr (exn_str e))] 0 w2)
         | (Inl (Base b), w2) \<Rightarrow> (Inl b, w2))"

section \<open>Notions the properties are stated with\<close>

text \<open>The tasks in the store, as the next load sees them.\<close>

definition store_tasks :: "world \<Rightarrow> task list" where
  "store_tasks w = (case db_file w of Stored d \<Rightarrow> get_tasks d | _ \<Rightarrow> [])"




text \<open>The sort key of a task whose due date is offset-naive, in the lexicographic order.\<close>

definition naive_key :: "env \<Rightarrow> task \<Rightarrow> (int \<times> int \<times> int \<times> int \<times> int \<times> int \<times> int) \<times> nat \<times> int" where
  "naive_key E t =
     (dt_fields (parse_due E (due_date t)), priority_rank (priority t), task_id t)"

text \<open>The due date of a task gives an offset-naive sort key.\<close>

definition naive_due :: "env \<Rightarrow> task \<Rightarrow> bool" where
  "naive_due E t = (tzinfo (parse_due E (due_date t)) = None)"

text \<open>The stored tasks that pass the status filter of \<open>list_tasks\<close>.\<close>

definition selected_tasks :: "string \<Rightarrow> world \<Rightarrow> task list" where
  "selected_tasks status_filter w =
     (if status_filter = ''all'' then store_tasks w
      else filter (\<lambda>t. status t = status_filter) (store_tasks w))"

text \<open>An event of the given type and action is in the log.\<close>

definition logged :: "EventType \<Rightarrow> string \<Rightarrow> world \<Rightarrow> bool" where
  "logged ty action w =
     list_ex (\<lambda>ev. event_type ev = ty \<and> map_of (details ev) ''action'' = Some (PStr action))
       (events w)"

text \<open>
  The state in which \<open>execute_workflow\<close> starts the primary agent, and the events
  and texts it produces: the fallback text and the \<open>execution_failed\<close> event of
  \<open>_run_agent\<close>, the \<open>workflow_complete\<close> event that ends a workflow which began
  in state \<open>w\<close> and ran its agents up to state \<open>w3\<close>, and the
  \<open>workflow_failed\<close> event.
\<close>

definition workflow_start_state :: "env \<Rightarrow> string \<Rightarrow> LlmAgent \<Rightarrow> world \<Rightarrow> world" where
  "workflow_start_state E user_input primary_agent w =
     log_event E AGENT_CALL ''Orchestrator''
       [(''action'', PStr ''workflow_start''), (''input'', PStr user_input),
        (''primary_agent'', PStr (name primary_agent))] 0 (snd (utcnow E w))"







section \<open>Concrete inputs\<close>

definition at_midnight :: "int \<Rightarrow> int \<Rightarrow> int \<Rightarrow> int option \<Rightarrow> datetime" where
  "at_midnight y m d tz =
     \<lparr>year = y, month = m, day = d, hour = 0, minute = 0, second = 0, microsecond = 0,
      tzinfo = tz\<rparr>"

text \<open>A parser that accepts four texts; the last one carries the offset \<open>+00:00\<close>.\<close>

definition example_fromisoformat :: "string \<Rightarrow> datetime option" where
  "example_fromisoformat s =
     (if s = ''2024-01-01'' then Some (at_midnight 2024 1 1 None)
      else if s = ''2024-02-01'' then Some (at_midnight 2024 2 1 None)
      else if s = ''2023-12-20'' then Some (at_midnight 2023 12 20 None)
      else if s = ''2024-01-01T00:00:00+00:00'' then Some (at_midnight 2024 1 1 (Some 0))
      else None)"

definition example_clock :: "nat \<Rightarrow> datetime" where
  "example_clock n =
     \<lparr>year = 2024, month = 1, day = 15, hour = 9, minute = 30, second = int (n mod 60),
      microsecond = 0, tzinfo = None\<rparr>"

definition example_run_async ::
  "LlmAgent \<Rightarrow> string \<Rightarrow> string \<Rightarrow> world \<Rightarrow> (raised + runner_event list) \<times> world" where
  "example_run_async agent user_id message w =
     (Inr [\<lparr>has_is_final_response = True, is_final_response = True,
            event_str = ''report ready''\<rparr>], w)"



definition example_env :: env where
  "example_env =
     \<lparr>uuid4 = (\<lambda>n. ''id-'' @ str_digits (int n)), clock = example_clock,
      fromisoformat = example_fromisoformat, run_async = example_run_async\<rparr>"

text \<open>An environment whose identifiers are pairwise different.\<close>

definition counting_env :: env where
  "counting_env = example_env\<lparr>uuid4 := (\<lambda>n. replicate n (CHR ''i''))\<rparr>"



definition example_world :: world where
  "example_world =
     \<lparr>events = [], message_queue = [], db_file = Missing, write_error = None,
      uuid_draws = 0, clock_reads = 0\<rparr>"


definition example_task :: "int \<Rightarrow> string \<Rightarrow> string option \<Rightarrow> string \<Rightarrow> task" where
  "example_task i ttl due prio =
     \<lparr>task_id = i, title = ttl, due_date = due, priority = prio, task_context = [],
      status = ''pending'', created_at = ''2024-01-10T08:00:00'', updated_at = None,
      reminder_time = None, subtasks = []\<rparr>"

definition world_with :: "task list \<Rightarrow> world" where
  "world_with ts = example_world\<lparr>db_file := Stored \<lparr>tasks = Some ts, goals = Some []\<rparr>\<rparr>"

definition example_message :: A2AMessage where
  "example_message =
     \<lparr>message_id = ''m-1'', from_agent = ''goal_planning_agent'',
      to_agent = ''task_manager_agent'', message_type = ''decompose_goal'',
      content = [(''goal'', PStr ''learn HOL'')], msg_context = [],
      msg_timestamp = ''2024-01-15T09:30:00'', delivered = False\<rparr>"


definition ok_handler :: handler where
  "ok_handler message w = (Inr (), w)"

text \<open>A handler that sends the message on, and one that fails after doing so.\<close>

definition forwarding_handler :: handler where
  "forwarding_handler message w = (Inr (), w\<lparr>message_queue := message_queue w @ [message]\<rparr>)"

definition failing_handler :: handler where
  "failing_handler message w =
     (Inl (Exc (ValueError ''bad payload'')),
      w\<lparr>message_queue := message_queue w @ [message]\<rparr>)"



section \<open>Properties\<close>

subsection \<open>The bounded event log\<close>

lemma last_1000_append:
  "last_1000 (last_1000 xs @ ys) = last_1000 (xs @ ys)"
proof (cases "length xs \<le> 1000")
  case True
  then show ?thesis by (simp add: last_1000_def)
next
  case False
  then have "length xs + length ys - 1000 = length ys + (length xs - 1000)" by simp
  then have "drop (length xs + length ys - 1000) xs = drop (length ys) (drop (length xs - 1000) xs)"
    by (simp only: drop_drop)
  with False show ?thesis by (simp add: last_1000_def)
qed

lemma events_log_event:
  "events (log_event E ty agent ds dur w) =
     last_1000 (events w @ [new_event E (uuid_draws w) (clock_reads w) ty agent ds dur])"
  by (simp add: log_event_def Let_def last_1000_def)

lemma draws_log_event:
  "uuid_draws (log_event E ty agent ds dur w) = uuid_draws w + 1"
  "clock_reads (log_event E ty agent ds dur w) = clock_reads w + 1"
  by (simp_all add: log_event_def Let_def)

lemma rest_log_event:
  "message_queue (log_event E ty agent ds dur w) = message_queue w"
  "db_file (log_event E ty agent ds dur w) = db_file w"
  "write_error (log_event E ty agent ds dur w) = write_error w"
  by (simp_all add: log_event_def Let_def)

lemma log_calls_snoc: "log_calls E w (cs @ [c]) = log_call E (log_calls E w cs) c"
  by (simp add: log_calls_def)

lemma draws_log_calls:
  "uuid_draws (log_calls E w cs) = uuid_draws w + length cs \<and>
   clock_reads (log_calls E w cs) = clock_reads w + length cs"
proof (induction cs rule: rev_induct)
  case Nil
  show ?case by (simp add: log_calls_def)
next
  case (snoc c cs)
  then show ?case
    by (cases c) (simp add: log_calls_snoc log_call_def draws_log_event)
qed

lemma created_events_snoc:
  "created_events E w (cs @ [(ty, agent, ds, dur)]) =
     created_events E w cs
       @ [new_event E (uuid_draws w + length cs) (clock_reads w + length cs) ty agent ds dur]"
  by (simp add: created_events_def)

lemma length_created_events: "length (created_events E w cs) = length cs"
  by (simp add: created_events_def)

lemma events_log_calls:
  "cs \<noteq> [] \<Longrightarrow>
     events (log_calls E w cs) = last_1000 (events w @ created_events E w cs)"
proof (induction cs rule: rev_induct)
  case Nil
  then show ?case by simp
next
  case (snoc c cs)
  obtain ty agent ds dur where c: "c = (ty, agent, ds, dur)" by (cases c) auto
  let ?e = "new_event E (uuid_draws w + length cs) (clock_reads w + length cs) ty agent ds dur"
  have step: "events (log_calls E w (cs @ [c])) = last_1000 (events (log_calls E w cs) @ [?e])"
    by (simp add: log_calls_snoc c log_call_def events_log_event draws_log_calls)
  show ?case
  proof (cases "cs = []")
    case True
    have "created_events E w [] = []" by (simp add: created_events_def)
    with True show ?thesis
      using step created_events_snoc [of E w "[]" ty agent ds dur]
      by (simp add: log_calls_def c)
  next
    case False
    then have "events (log_calls E w cs) = last_1000 (events w @ created_events E w cs)"
      by (rule snoc.IH)
    then show ?thesis
      using step by (simp add: last_1000_append c created_events_snoc)
  qed
qed

lemma event_id_created:
  "k < length cs \<Longrightarrow>
     event_id (created_events E w cs ! k) = uuid4 E (uuid_draws w + k)"
  by (simp add: created_events_def new_event_def split_beta)

lemma created_not_in_drop:
  assumes "inj (uuid4 E)" and "k < n" and "n \<le> length cs"
  shows "created_events E w cs ! k \<notin> set (drop n (created_events E w cs))"
proof
  assume "created_events E w cs ! k \<in> set (drop n (created_events E w cs))"
  then obtain j where j: "j < length cs - n"
      and e: "drop n (created_events E w cs) ! j = created_events E w cs ! k"
    by (auto simp: in_set_conv_nth length_created_events)
  from j assms(3) have jn: "n + j < length cs" by simp
  then have "created_events E w cs ! (n + j) = created_events E w cs ! k"
    using e by (simp add: length_created_events)
  then have "event_id (created_events E w cs ! (n + j)) = event_id (created_events E w cs ! k)"
    by simp
  moreover have "k < length cs" using assms(2,3) by simp
  ultimately have "uuid4 E (uuid_draws w + (n + j)) = uuid4 E (uuid_draws w + k)"
    using jn by (simp add: event_id_created)
  with assms(1) have "uuid_draws w + (n + j) = uuid_draws w + k" by (simp add: inj_eq)
  with assms(2) show False by simp
qed

lemma counting_env_inj: "inj (uuid4 counting_env)"
proof (rule injI)
  fix m n :: nat
  assume "uuid4 counting_env m = uuid4 counting_env n"
  then have "length (replicate m (CHR ''i'')) = length (replicate n (CHR ''i''))"
    by (simp add: counting_env_def)
  then show "m = n" by simp
qed

text \<open>
  C1. After \<open>N > 1000\<close> calls of \<open>log_event\<close>, whatever the log held before, the log
  holds exactly 1000 events: the events created by the last 1000 calls, in call order.
  The oldest entry is the event of call number \<open>N - 999\<close> (index \<open>N - 1000\<close> counting
  from 0), and, identifiers being unique, the events of the first \<open>N - 1000\<close> calls
  are not in the log.
\<close>

theorem log_event_keeps_last_1000:
  assumes "1000 < length cs"
  shows "events (log_calls E w cs) = drop (length cs - 1000) (created_events E w cs) \<and>
         length (events (log_calls E w cs)) = 1000 \<and>
         hd (events (log_calls E w cs)) = created_events E w cs ! (length cs - 1000) \<and>
         (inj (uuid4 E) \<longrightarrow>
            (\<forall>k < length cs - 1000.
               created_events E w cs ! k \<notin> set (events (log_calls E w cs))))"
proof -
  from assms have ne: "cs \<noteq> []" by auto
  have "events (log_calls E w cs) = last_1000 (events w @ created_events E w cs)"
    using ne by (rule events_log_calls)
  also have "\<dots> = drop (length cs - 1000) (created_events E w cs)"
    using assms by (simp add: last_1000_def length_created_events)
  finally have 1: "events (log_calls E w cs) = drop (length cs - 1000) (created_events E w cs)" .
  have 2: "length (events (log_calls E w cs)) = 1000"
    using assms by (simp add: 1 length_created_events)
  have 3: "hd (drop (length cs - 1000) (created_events E w cs))
             = created_events E w cs ! (length cs - 1000)"
    using assms by (simp add: hd_drop_conv_nth length_created_events)
  have 4: "inj (uuid4 E) \<longrightarrow>
            (\<forall>k < length cs - 1000.
               created_events E w cs ! k \<notin> set (drop (length cs - 1000) (created_events E w cs)))"
    using created_not_in_drop [of E _ "length cs - 1000" cs w] by simp
  show ?thesis using 1 2 3 4 by simp
qed

theorem log_event_keeps_last_1000_witness:
  "1000 < length (replicate 1001 (ERROR, ''Database'', [], 0 :: rat)) \<and>
   length (events (log_calls counting_env example_world
                     (replicate 1001 (ERROR, ''Database'', [], 0)))) = 1000 \<and>
   created_events counting_env example_world (replicate 1001 (ERROR, ''Database'', [], 0)) ! 0
     \<notin> set (events (log_calls counting_env example_world
                      (replicate 1001 (ERROR, ''Database'', [], 0))))"
proof -
  have h: "1000 < length (replicate 1001 (ERROR, ''Database'', [], 0 :: rat))" by simp
  note t = log_event_keeps_last_1000 [OF h, of counting_env example_world]
  have "(0::nat) < length (replicate 1001 (ERROR, ''Database'', [], 0 :: rat)) - 1000" by simp
  with t counting_env_inj have
    "created_events counting_env example_world (replicate 1001 (ERROR, ''Database'', [], 0)) ! 0
     \<notin> set (events (log_calls counting_env example_world
                      (replicate 1001 (ERROR, ''Database'', [], 0))))"
    by blast
  with h t show ?thesis by blast
qed

subsection \<open>Message delivery\<close>

text \<open>
  C2. Processing a message invokes at most one handler, and only the one registered
  for its \<open>to_agent\<close>. When a handler is registered, the state after the call is the
  state that one application of the handler to the incoming state left, with exactly
  one event logged on top of it (\<open>message_processed\<close>, or
  \<open>message_processing_error\<close> when the handler raised) and the queue as the handler
  left it: nothing is retried or put back. An exception that \<open>except Exception\<close>
  lets through leaves the call with the handler's state and nothing logged. When no
  handler is registered for \<open>to_agent\<close>, no handler is invoked, the message is left as
  it was, the queue is left as it was (no retry), and exactly one event is appended to
  the log: an \<open>ERROR\<close> event of \<open>A2AProtocol\<close> with action \<open>agent_not_found\<close>
  carrying \<open>to_agent\<close> and \<open>message_id\<close>.
\<close>

theorem process_message_at_most_once:
  "(case process_message E agent_handlers message w of
      (invoked, message', w', propagated) \<Rightarrow>
        length invoked \<le> 1 \<and> set invoked \<subseteq> {to_agent message} \<and>
        (\<forall>handler. agent_handlers (to_agent message) = Some handler \<longrightarrow>
           invoked = [to_agent message] \<and>
           (case handler message w of
              (Inr u, w1) \<Rightarrow>
                w' = log_event E A2A_COMMUNICATION (to_agent message)
                       [(''action'', PStr ''message_processed''),
                        (''from_agent'', PStr (from_agent message)),
                        (''message_type'', PStr (message_type message)),
                        (''message_id'', PStr (message_id message))] 0 w1 \<and>
                message_queue w' = message_queue w1 \<and> db_file w' = db_file w1 \<and>
                propagated = None
            | (Inl (Exc e), w1) \<Rightarrow>
                w' = log_event E ERROR (to_agent message)
                       [(''action'', PStr ''message_processing_error''),
                        (''error'', PStr (exn_str e)),
                        (''message_id'', PStr (message_id message))] 0 w1 \<and>
                message_queue w' = message_queue w1 \<and> db_file w' = db_file w1 \<and>
                message' = message \<and> propagated = None
            | (Inl (Base b), w1) \<Rightarrow>
                w' = w1 \<and> message' = message \<and> propagated = Some b)) \<and>
        (agent_handlers (to_agent message) = None \<longrightarrow>
           invoked = [] \<and> message' = message \<and> message_queue w' = message_queue w \<and>
           db_file w' = db_file w \<and> propagated = None \<and>
           events w' =
             last_1000 (events w @
               [new_event E (uuid_draws w) (clock_reads w) ERROR ''A2AProtocol''
                  [(''action'', PStr ''agent_not_found''),
                   (''to_agent'', PStr (to_agent message)),
                   (''message_id'', PStr (message_id message))] 0])))"
proof (cases "agent_handlers (to_agent message)")
  case None
  then show ?thesis
    by (simp add: process_message_def events_log_event rest_log_event)
next
  case (Some handler)
  obtain res w1 where h: "handler message w = (res, w1)" by (cases "handler message w") auto
  show ?thesis
  proof (cases res)
    case (Inr u)
    with Some h show ?thesis by (simp add: process_message_def rest_log_event)
  next
    case (Inl r)
    show ?thesis
    proof (cases r)
      case (Exc e)
      with Inl Some h show ?thesis by (simp add: process_message_def rest_log_event)
    next
      case (Base b)
      with Inl Some h show ?thesis by (simp add: process_message_def)
    qed
  qed
qed

theorem process_message_at_most_once_witness:
  "Map.empty (to_agent example_message) = (None :: handler option) \<and>
   (case process_message example_env Map.empty example_message example_world of
      (invoked, message', w', propagated) \<Rightarrow>
        invoked = [] \<and> message' = example_message \<and>
        message_queue w' = message_queue example_world \<and>
        logged ERROR ''agent_not_found'' w') \<and>
   [''task_manager_agent'' \<mapsto> forwarding_handler] (to_agent example_message)
     = Some forwarding_handler \<and>
   message_queue (fst (snd (snd (process_message example_env
       [''task_manager_agent'' \<mapsto> forwarding_handler] example_message example_world))))
     = [example_message] \<and>
   message_queue (fst (snd (snd (process_message example_env
       [''task_manager_agent'' \<mapsto> failing_handler] example_message example_world))))
     = [example_message] \<and>
   logged ERROR ''message_processing_error''
     (fst (snd (snd (process_message example_env
       [''task_manager_agent'' \<mapsto> failing_handler] example_message example_world))))"
proof -
  have t: "to_agent example_message = ''task_manager_agent''" by (simp add: example_message_def)
  have q: "message_queue example_world = []" "events example_world = []"
    by (simp_all add: example_world_def)
  have h: "Map.empty (to_agent example_message) = (None :: handler option)" by simp
  obtain invoked message' w' propagated where
    p: "process_message example_env Map.empty example_message example_world
          = (invoked, message', w', propagated)"
    by (cases "process_message example_env Map.empty example_message example_world") auto
  from process_message_at_most_once
         [where E = example_env and agent_handlers = Map.empty
            and message = example_message and w = example_world] p
  have "invoked = [] \<and> message' = example_message \<and>
        message_queue w' = message_queue example_world \<and>
        events w' =
             last_1000 (events example_world @
               [new_event example_env (uuid_draws example_world) (clock_reads example_world)
                  ERROR ''A2AProtocol''
                  [(''action'', PStr ''agent_not_found''),
                   (''to_agent'', PStr (to_agent example_message)),
                   (''message_id'', PStr (message_id example_message))] 0])"
    by simp
  then have a: "invoked = [] \<and> message' = example_message \<and>
        message_queue w' = message_queue example_world \<and> logged ERROR ''agent_not_found'' w'"
    by (simp add: logged_def q last_1000_def new_event_def)
  have f: "[''task_manager_agent'' \<mapsto> forwarding_handler] (to_agent example_message)
             = Some forwarding_handler"
    by (simp add: t)
  obtain i1 m1 w1 b1 where
    p1: "process_message example_env [''task_manager_agent'' \<mapsto> forwarding_handler]
           example_message example_world = (i1, m1, w1, b1)"
    by (cases "process_message example_env [''task_manager_agent'' \<mapsto> forwarding_handler]
           example_message example_world") auto
  from process_message_at_most_once
         [where E = example_env and agent_handlers = "[''task_manager_agent'' \<mapsto> forwarding_handler]"
            and message = example_message and w = example_world] p1 f
  have b: "message_queue w1 = [example_message]"
    by (simp add: forwarding_handler_def q rest_log_event)
  have g: "[''task_manager_agent'' \<mapsto> failing_handler] (to_agent example_message)
             = Some failing_handler"
    by (simp add: t)
  obtain i2 m2 w2 b2 where
    p2: "process_message example_env [''task_manager_agent'' \<mapsto> failing_handler]
           example_message example_world = (i2, m2, w2, b2)"
    by (cases "process_message example_env [''task_manager_agent'' \<mapsto> failing_handler]
           example_message example_world") auto
  from process_message_at_most_once
         [where E = example_env and agent_handlers = "[''task_manager_agent'' \<mapsto> failing_handler]"
            and message = example_message and w = example_world] p2 g
  have c: "message_queue w2 = [example_message] \<and>
           w2 = log_event example_env ERROR (to_agent example_message)
                  [(''action'', PStr ''message_processing_error''),
                   (''error'', PStr (exn_str (ValueError ''bad payload''))),
                   (''message_id'', PStr (message_id example_message))] 0
                  (example_world\<lparr>message_queue := message_queue example_world @ [example_message]\<rparr>)"
    by (simp add: failing_handler_def q rest_log_event)
  then have c': "logged ERROR ''message_processing_error'' w2"
    by (simp add: logged_def events_log_event q last_1000_def new_event_def)
  from c have c1: "message_queue w2 = [example_message]" by blast
  show ?thesis using h a f b c1 c' p p1 p2 by simp
qed

text \<open>
  C9. A new message has \<open>delivered = False\<close>. Processing a message never resets the
  flag, and sets it on an undelivered message exactly when a handler is registered for
  its \<open>to_agent\<close> and that handler returns without raising; when the handler raises
  or none is registered the flag stays false.
\<close>

theorem delivered_set_once:
  "delivered (fst (A2AMessage_init E from_a to_a mtype cont ctx w0)) = False \<and>
   (case process_message E agent_handlers message w of
      (invoked, message', w') \<Rightarrow>
        (delivered message \<longrightarrow> delivered message') \<and>
        (\<not> delivered message \<longrightarrow>
           delivered message' =
             (\<exists>handler w1. agent_handlers (to_agent message) = Some handler \<and>
                handler message w = (Inr (), w1))))"
  by (auto simp: process_message_def A2AMessage_init_def Let_def
           split: option.splits prod.splits sum.splits raised.splits)

theorem delivered_set_once_witness:
  "\<not> delivered example_message \<and>
   delivered (fst (snd (process_message example_env
                 [''task_manager_agent'' \<mapsto> ok_handler] example_message example_world))) \<and>
   \<not> delivered (fst (snd (process_message example_env Map.empty
                 example_message example_world)))"
proof -
  have a: "\<not> delivered example_message" by (simp add: example_message_def)
  have t: "to_agent example_message = ''task_manager_agent''" by (simp add: example_message_def)
  obtain i1 m1 w1 where
    p1: "process_message example_env [''task_manager_agent'' \<mapsto> ok_handler]
           example_message example_world = (i1, m1, w1)"
    by (cases "process_message example_env [''task_manager_agent'' \<mapsto> ok_handler]
           example_message example_world") auto
  obtain i2 m2 w2 where
    p2: "process_message example_env Map.empty example_message example_world = (i2, m2, w2)"
    by (cases "process_message example_env Map.empty example_message example_world") auto
  have d1: "delivered m1"
    using a p1 delivered_set_once [where E = example_env and w = example_world
        and agent_handlers = "[''task_manager_agent'' \<mapsto> ok_handler]"
        and message = example_message]
    by (simp add: t ok_handler_def)
  have d2: "\<not> delivered m2"
    using a p2 delivered_set_once [where E = example_env and w = example_world
        and agent_handlers = Map.empty and message = example_message]
    by simp
  show ?thesis using a d1 d2 p1 p2 by simp
qed

subsection \<open>Routing\<close>

lemma str_contains_sublist: "str_contains sub s \<longleftrightarrow> sublist sub s"
  by (induction s) (simp_all add: sublist_Cons_right)

lemma init_getitem:
  "agents_getitem SequentialAgentOrchestrator_init ''goal_planning_agent'' = Inr goal_planning_agent"
  "agents_getitem SequentialAgentOrchestrator_init ''analysis_agent'' = Inr analysis_agent"
  "agents_getitem SequentialAgentOrchestrator_init ''task_manager_agent'' = Inr task_manager_agent"
  by (simp_all add: agents_getitem_def SequentialAgentOrchestrator_init_def)

text \<open>
  C4. For the orchestrator as constructed, the primary agent is decided by the
  lower-cased input alone, first match first: the goal-planning agent if it contains one
  of \<open>goal\<close>, \<open>long-term\<close>, \<open>strategy\<close>, \<open>plan\<close>, \<open>vision\<close>; otherwise the
  analysis agent if it contains one of \<open>report\<close>, \<open>analysis\<close>, \<open>stats\<close>, \<open>trend\<close>,
  \<open>progress\<close>; otherwise the task-manager agent. Inputs with the same lower-cased text
  get the same primary agent.
\<close>

theorem route_to_agent_rules:
  "route_to_agent SequentialAgentOrchestrator_init user_input =
     Inr (if sublist ''goal'' (lower user_input) \<or> sublist ''long-term'' (lower user_input) \<or>
             sublist ''strategy'' (lower user_input) \<or> sublist ''plan'' (lower user_input) \<or>
             sublist ''vision'' (lower user_input)
          then goal_planning_agent
          else if sublist ''report'' (lower user_input) \<or> sublist ''analysis'' (lower user_input) \<or>
             sublist ''stats'' (lower user_input) \<or> sublist ''trend'' (lower user_input) \<or>
             sublist ''progress'' (lower user_input)
          then analysis_agent
          else task_manager_agent) \<and>
   (lower user_input = lower user_input' \<longrightarrow>
      route_to_agent SequentialAgentOrchestrator_init user_input =
      route_to_agent SequentialAgentOrchestrator_init user_input')"
  by (simp add: route_to_agent_def Let_def any_keyword_in_def init_getitem
        str_contains_sublist)

theorem route_to_agent_rules_witness:
  "lower ''My GOAL'' = lower ''my goal'' \<and>
   route_to_agent SequentialAgentOrchestrator_init ''My GOAL'' =
   route_to_agent SequentialAgentOrchestrator_init ''my goal''"
proof -
  have h: "lower ''My GOAL'' = lower ''my goal''" by code_simp
  show ?thesis
    using h route_to_agent_rules [where user_input = "''My GOAL''" and user_input' = "''my goal''"]
    by blast
qed

text \<open>
  C5. For the orchestrator as constructed, the secondary agent is decided by the input
  and the primary response alone, by ordered rules: the goal-planning agent if the
  lower-cased input contains \<open>goal\<close> and the lower-cased response contains \<open>task\<close>;
  otherwise the analysis agent if the lower-cased response contains \<open>report\<close> or
  \<open>analysis\<close>; otherwise none.
\<close>

theorem determine_secondary_agent_rules:
  "determine_secondary_agent SequentialAgentOrchestrator_init user_input primary_response =
     Inr (if sublist ''goal'' (lower user_input) \<and> sublist ''task'' (lower primary_response)
          then Some goal_planning_agent
          else if sublist ''report'' (lower primary_response) \<or>
                  sublist ''analysis'' (lower primary_response)
          then Some analysis_agent
          else None)"
  by (simp add: determine_secondary_agent_def Let_def init_getitem str_contains_sublist)

text \<open>
  C6, as stated, fails: with input \<open>my goal\<close> and primary response \<open>report ready\<close>
  the input contains \<open>goal\<close>, the response does not contain \<open>task\<close>, and the
  analysis agent is selected as secondary.
\<close>

theorem secondary_goal_without_task_counterexample:
  "str_contains ''goal'' ''my goal'' \<and> \<not> str_contains ''task'' ''report ready'' \<and>
   determine_secondary_agent SequentialAgentOrchestrator_init ''my goal'' ''report ready''
     = Inr (Some analysis_agent)"
  by code_simp

text \<open>
  C6, amended. When the lower-cased input contains \<open>goal\<close> and the lower-cased primary
  response does not contain \<open>task\<close>, the goal-planning agent is not selected; the
  analysis agent is selected if the lower-cased response contains \<open>report\<close> or
  \<open>analysis\<close>, and no secondary agent is selected otherwise.
\<close>

theorem secondary_goal_without_task:
  assumes "sublist ''goal'' (lower user_input)"
    and "\<not> sublist ''task'' (lower primary_response)"
  shows "determine_secondary_agent SequentialAgentOrchestrator_init user_input primary_response
           = Inr (if sublist ''report'' (lower primary_response) \<or>
                     sublist ''analysis'' (lower primary_response)
                  then Some analysis_agent else None) \<and>
         determine_secondary_agent SequentialAgentOrchestrator_init user_input primary_response
           \<noteq> Inr (Some goal_planning_agent)"
  using assms
  by (simp add: determine_secondary_agent_def Let_def init_getitem str_contains_sublist
        analysis_agent_def goal_planning_agent_def)

theorem secondary_goal_without_task_witness:
  "sublist ''goal'' (lower ''My goal'') \<and> \<not> sublist ''task'' (lower ''All done'') \<and>
   determine_secondary_agent SequentialAgentOrchestrator_init ''My goal'' ''All done''
     = Inr None"
proof -
  have a: "sublist ''goal'' (lower ''My goal'')" by code_simp
  have b: "\<not> sublist ''task'' (lower ''All done'')" by code_simp
  have c: "\<not> sublist ''report'' (lower ''All done'')" by code_simp
  have d: "\<not> sublist ''analysis'' (lower ''All done'')" by code_simp
  show ?thesis
    using a b c d secondary_goal_without_task [OF a b] by simp
qed

subsection \<open>Failure containment in the workflow\<close>








lemma execute_workflow_cancelled_secondary:
  assumes "route_to_agent self user_input = Inr p"
    and "run_agent E p user_input user_id (workflow_start_state E user_input p w) = (Inr pr, w2)"
    and "determine_secondary_agent self user_input pr = Inr (Some a)"
    and "run_agent E a user_input user_id w2 = (Inl b, w4)"
  shows "execute_workflow E self user_input user_id w = (Inl b, w4)"
  using assms
  by (simp add: execute_workflow_def workflow_try_def Let_def split_beta
        workflow_start_state_def)



















subsection \<open>The task store\<close>

lemma utcnow_keeps:
  "db_file (snd (utcnow E w)) = db_file w"
  "write_error (snd (utcnow E w)) = write_error w"
  "events (snd (utcnow E w)) = events w"
  by (simp_all add: utcnow_def)



lemma load_db_tasks: "get_tasks (fst (load_db E w)) = store_tasks w"
  by (simp add: load_db_def store_tasks_def empty_db_def get_tasks_def split: db_file.splits)


lemma store_tasks_cong: "db_file w = db_file w' \<Longrightarrow> store_tasks w = store_tasks w'"
  by (simp add: store_tasks_def)

lemma fold_max_ge: "(i::int) \<le> fold max xs i \<and> (\<forall>x \<in> set xs. x \<le> fold max xs i)"
proof (induction xs arbitrary: i)
  case Nil
  show ?case by simp
next
  case (Cons x xs)
  have a: "max x i \<le> fold max xs (max x i)" using Cons.IH by blast
  have b: "\<forall>y \<in> set xs. y \<le> fold max xs (max x i)" using Cons.IH by blast
  from a b show ?case by auto
qed

lemma next_task_id_fresh: "t \<in> set ts \<Longrightarrow> task_id t < next_task_id ts"
proof -
  assume t: "t \<in> set ts"
  then obtain u us where ts: "ts = u # us" by (cases ts) auto
  have "task_id t \<le> fold max (map task_id us) (task_id u)"
    using t fold_max_ge [of "task_id u" "map task_id us"] by (auto simp: ts)
  then show ?thesis by (simp add: next_task_id_def ts)
qed


lemma store_tasks_world_with: "store_tasks (world_with ts) = ts"
  by (simp add: store_tasks_def world_with_def get_tasks_def)





subsection \<open>Deleting the tasks of the previous month\<close>











subsection \<open>Listing tasks in order\<close>

text \<open>
  As long as every selected task has an offset-naive sort key (a missing or rejected due
  date gives \<open>datetime.max\<close>, which is naive), \<open>sorted\<close> is the stable sort by the
  lexicographic key (due date, priority rank, id). As soon as a naive and an aware key
  meet, every order of the list makes \<open>sorted\<close> raise \<open>TypeError\<close>, which
  \<open>list_tasks\<close> turns into the error result.
\<close>

lemma key_lt_naive:
  "naive_due E x \<Longrightarrow> naive_due E y \<Longrightarrow>
     key_lt (task_key E y) (task_key E x) = Inr (naive_key E y < naive_key E x)"
  by (auto simp: naive_due_def key_lt_def task_key_def naive_key_def datetime_eq_def
        datetime_lt_def)

lemma key_lt_mixed:
  "naive_due E x \<noteq> naive_due E y \<Longrightarrow>
     key_lt (task_key E y) (task_key E x) = Inl (TypeError naive_aware_msg)"
  by (auto simp: naive_due_def key_lt_def task_key_def datetime_eq_def datetime_lt_def
           split: option.splits)

lemma insert_task_naive:
  "naive_due E x \<Longrightarrow> \<forall>y \<in> set ys. naive_due E y \<Longrightarrow>
     insert_task E x ys = Inr (insort_key (naive_key E) x ys)"
proof (induction ys)
  case Nil
  show ?case by simp
next
  case (Cons y ys)
  then have k: "key_lt (task_key E y) (task_key E x) = Inr (naive_key E y < naive_key E x)"
    by (simp add: key_lt_naive)
  from Cons have ih: "insert_task E x ys = Inr (insort_key (naive_key E) x ys)" by simp
  show ?case by (auto simp: k ih not_less split: bool.splits)
qed

lemma sorted_tasks_naive:
  "\<forall>t \<in> set ts. naive_due E t \<Longrightarrow> sorted_tasks E ts = Inr (sort_key (naive_key E) ts)"
proof (induction ts)
  case Nil
  show ?case by simp
next
  case (Cons t ts)
  then have ih: "sorted_tasks E ts = Inr (sort_key (naive_key E) ts)" by simp
  have "\<forall>y \<in> set (sort_key (naive_key E) ts). naive_due E y" using Cons.prems by simp
  with Cons.prems have "insert_task E t (sort_key (naive_key E) ts)
      = Inr (insort_key (naive_key E) t (sort_key (naive_key E) ts))"
    by (simp add: insert_task_naive)
  with ih show ?case by simp
qed

lemma key_lt_Inl: "key_lt k1 k2 = Inl e \<Longrightarrow> e = TypeError naive_aware_msg"
  by (auto simp: key_lt_def datetime_lt_def split: prod.splits if_splits option.splits)

lemma insert_task_Inl: "insert_task E x ys = Inl e \<Longrightarrow> e = TypeError naive_aware_msg"
  by (induction ys) (auto dest: key_lt_Inl split: sum.splits bool.splits)

lemma sorted_tasks_Inl: "sorted_tasks E ts = Inl e \<Longrightarrow> e = TypeError naive_aware_msg"
  by (induction ts) (auto dest: insert_task_Inl split: sum.splits)

lemma insert_task_set: "insert_task E x ys = Inr zs \<Longrightarrow> set zs = insert x (set ys)"
proof (induction ys arbitrary: zs)
  case Nil
  then show ?case by auto
next
  case (Cons y ys)
  show ?case
  proof (cases "key_lt (task_key E y) (task_key E x)")
    case (Inl e)
    with Cons.prems show ?thesis by simp
  next
    case (Inr lt)
    show ?thesis
    proof (cases lt)
      case True
      with Inr Cons.prems obtain zs' where
        z: "insert_task E x ys = Inr zs'" "zs = y # zs'"
        by (cases "insert_task E x ys") auto
      from Cons.IH [OF z(1)] z(2) show ?thesis by auto
    next
      case False
      with Inr Cons.prems have "zs = x # y # ys" by simp
      then show ?thesis by auto
    qed
  qed
qed

lemma sorted_tasks_set: "sorted_tasks E ts = Inr ys \<Longrightarrow> set ys = set ts"
proof (induction ts arbitrary: ys)
  case Nil
  then show ?case by simp
next
  case (Cons t ts)
  from Cons.prems obtain ys' where
    s: "sorted_tasks E ts = Inr ys'" and i: "insert_task E t ys' = Inr ys"
    by (cases "sorted_tasks E ts") auto
  from insert_task_set [OF i] Cons.IH [OF s] show ?case by simp
qed

lemma insert_task_same_kind:
  "insert_task E x (y # ys) = Inr zs \<Longrightarrow> naive_due E x = naive_due E y"
proof (rule ccontr)
  assume a: "insert_task E x (y # ys) = Inr zs" and "naive_due E x \<noteq> naive_due E y"
  then have "key_lt (task_key E y) (task_key E x) = Inl (TypeError naive_aware_msg)"
    by (rule_tac key_lt_mixed)
  with a show False by simp
qed

lemma sorted_tasks_same_kind:
  "sorted_tasks E ts = Inr ys \<Longrightarrow> a \<in> set ts \<Longrightarrow> b \<in> set ts \<Longrightarrow>
     naive_due E a = naive_due E b"
proof (induction ts arbitrary: ys a b)
  case Nil
  then show ?case by simp
next
  case (Cons t ts)
  from Cons.prems(1) obtain ys' where
    s: "sorted_tasks E ts = Inr ys'" and i: "insert_task E t ys' = Inr ys"
    by (cases "sorted_tasks E ts") auto
  have set: "set ys' = set ts" using s by (rule sorted_tasks_set)
  have hd: "\<And>c. c \<in> set ts \<Longrightarrow> naive_due E t = naive_due E c"
  proof -
    fix c assume c: "c \<in> set ts"
    with set obtain y rest where ys': "ys' = y # rest" by (cases ys') auto
    with set have "y \<in> set ts" by auto
    then have "naive_due E y = naive_due E c" using Cons.IH [OF s] c by blast
    moreover have "naive_due E t = naive_due E y"
      using i unfolding ys' by (rule insert_task_same_kind)
    ultimately show "naive_due E t = naive_due E c" by simp
  qed
  have ih: "\<And>c d. c \<in> set ts \<Longrightarrow> d \<in> set ts \<Longrightarrow> naive_due E c = naive_due E d"
    by (rule Cons.IH [OF s])
  from Cons.prems(2) have a: "a = t \<or> a \<in> set ts" by auto
  from Cons.prems(3) have b: "b = t \<or> b \<in> set ts" by auto
  from a b show ?case
  proof (elim disjE)
    assume "a = t" "b = t"
    then show ?thesis by simp
  next
    assume "a = t" "b \<in> set ts"
    then show ?thesis using hd [of b] by simp
  next
    assume "a \<in> set ts" "b = t"
    then show ?thesis using hd [of a] by simp
  next
    assume "a \<in> set ts" "b \<in> set ts"
    then show ?thesis by (rule ih)
  qed
qed

lemma sorted_tasks_mixed:
  assumes "a \<in> set ts" "b \<in> set ts" "naive_due E a" "\<not> naive_due E b"
  shows "sorted_tasks E ts = Inl (TypeError naive_aware_msg)"
proof (cases "sorted_tasks E ts")
  case (Inl e)
  then show ?thesis using sorted_tasks_Inl by blast
next
  case (Inr ys)
  then have "naive_due E a = naive_due E b"
    using assms(1,2) by (rule sorted_tasks_same_kind)
  with assms(3,4) show ?thesis by simp
qed

lemma list_tasks_selected:
  "(if status_filter \<noteq> ''all''
    then filter (\<lambda>t. status t = status_filter) (get_tasks (fst (load_db E (snd (utcnow E w)))))
    else get_tasks (fst (load_db E (snd (utcnow E w))))) = selected_tasks status_filter w"
  by (simp add: selected_tasks_def load_db_tasks store_tasks_cong [of "snd (utcnow E w)" w]
        utcnow_keeps)

lemma list_tasks_sorted_when_naive:
  assumes "\<forall>t \<in> set (selected_tasks status_filter w). naive_due E t"
  shows "fst (list_tasks E status_filter w) =
           [(''status'', RStr ''success''),
            (''tasks'', RTasks (sort_key (naive_key E) (selected_tasks status_filter w)))]"
  using sorted_tasks_naive [OF assms]
  by (simp add: list_tasks_def Let_def split_beta list_tasks_selected)

lemma list_tasks_error_when_mixed:
  assumes "a \<in> set (selected_tasks status_filter w)"
    and "b \<in> set (selected_tasks status_filter w)"
    and "naive_due E a" and "\<not> naive_due E b"
  shows "fst (list_tasks E status_filter w) =
           [(''status'', RStr ''error''), (''message'', RStr naive_aware_msg)]"
  using sorted_tasks_mixed [OF assms]
  by (simp add: list_tasks_def Let_def split_beta list_tasks_selected)

lemma selected_all_world_with: "selected_tasks ''all'' (world_with ts) = ts"
  by (simp add: selected_tasks_def store_tasks_world_with)

lemma parse_due_examples:
  "parse_due example_env None = datetime_max"
  "parse_due example_env (Some ''2024-02-01'') = at_midnight 2024 2 1 None"
  "parse_due example_env (Some ''2024-01-01'') = at_midnight 2024 1 1 None"
  "parse_due example_env (Some ''2024-01-01T00:00:00+00:00'') = at_midnight 2024 1 1 (Some 0)"
  by (simp_all add: parse_due_def example_env_def example_fromisoformat_def)

lemma list_tasks_sort_order_example:
  "fst (list_tasks example_env ''all''
          (world_with [example_task 1 ''a'' None ''medium'',
                       example_task 2 ''b'' (Some ''2024-02-01'') ''low'',
                       example_task 3 ''c'' (Some ''2024-01-01'') ''high'']))
     = [(''status'', RStr ''success''),
        (''tasks'', RTasks [example_task 3 ''c'' (Some ''2024-01-01'') ''high'',
                            example_task 2 ''b'' (Some ''2024-02-01'') ''low'',
                            example_task 1 ''a'' None ''medium''])]"
proof -
  let ?a = "example_task 1 ''a'' None ''medium''"
  let ?b = "example_task 2 ''b'' (Some ''2024-02-01'') ''low''"
  let ?c = "example_task 3 ''c'' (Some ''2024-01-01'') ''high''"
  have k: "naive_key example_env ?a = ((9999, 12, 31, 23, 59, 59, 999999), 1, 1)"
          "naive_key example_env ?b = ((2024, 2, 1, 0, 0, 0, 0), 2, 2)"
          "naive_key example_env ?c = ((2024, 1, 1, 0, 0, 0, 0), 0, 3)"
    by (simp_all add: naive_key_def example_task_def parse_due_examples datetime_max_def
          at_midnight_def dt_fields_def priority_rank_def)
  have n: "\<forall>t \<in> set (selected_tasks ''all'' (world_with [?a, ?b, ?c])). naive_due example_env t"
    by (simp add: selected_all_world_with naive_due_def example_task_def parse_due_examples
          datetime_max_def at_midnight_def)
  have s: "sort_key (naive_key example_env) [?a, ?b, ?c] = [?c, ?b, ?a]"
    by (simp add: k)
  show ?thesis
    using list_tasks_sorted_when_naive [OF n] by (simp only: selected_all_world_with s)
qed

text \<open>
  C8 at a store the code can hold: task 1 has no due date, task 2 is due
  \<open>2024-01-01T00:00:00+00:00\<close>. The key of task 1 is the naive \<open>datetime.max\<close>, the
  key of task 2 is offset-aware, and \<open>list_tasks\<close> returns status \<open>error\<close> instead
  of the sorted tasks.
\<close>

theorem list_tasks_mixed_offsets_error:
  "fst (list_tasks example_env ''all''
          (world_with [example_task 1 ''a'' None ''medium'',
                       example_task 2 ''b'' (Some ''2024-01-01T00:00:00+00:00'') ''low'']))
     = [(''status'', RStr ''error''),
        (''message'', RStr ''can't compare offset-naive and offset-aware datetimes'')]"
proof -
  let ?a = "example_task 1 ''a'' None ''medium''"
  let ?b = "example_task 2 ''b'' (Some ''2024-01-01T00:00:00+00:00'') ''low''"
  have a: "naive_due example_env ?a"
    by (simp add: naive_due_def example_task_def parse_due_examples datetime_max_def)
  have b: "\<not> naive_due example_env ?b"
    by (simp add: naive_due_def example_task_def parse_due_examples at_midnight_def)
  have "fst (list_tasks example_env ''all'' (world_with [?a, ?b]))
          = [(''status'', RStr ''error''), (''message'', RStr naive_aware_msg)]"
    by (rule list_tasks_error_when_mixed [where a = ?a and b = ?b])
       (simp_all add: selected_all_world_with a b)
  then show ?thesis by (simp add: naive_aware_msg_def)
qed

end
